theory Spec2Isabelle
  imports Main
begin

section \<open>Python strings\<close>

text \<open>
  A Python \<open>str\<close> is a sequence of code points. The development models it as a
  \<^typ>\<open>string\<close>, one \<^typ>\<open>char\<close> per code point, which covers the code points
  below 256 (ASCII and Latin-1). \<open>len\<close> is \<^const>\<open>length\<close>. In that range the
  Unicode classes used by \<open>re\<close> and by \<open>str.strip\<close> are the ones written out below:
  \<open>\d\<close> is the decimal digits \<open>0\<close> to \<open>9\<close>, and white space is the code points
  9 to 13, 28 to 32, 133 and 160.
\<close>

definition ord :: "char \<Rightarrow> nat" where
  "ord c = of_char c"

definition is_digit :: "char \<Rightarrow> bool" where
  "is_digit c = (48 \<le> ord c \<and> ord c \<le> 57)"

definition is_upper :: "char \<Rightarrow> bool" where
  "is_upper c = (65 \<le> ord c \<and> ord c \<le> 90)"

definition is_lower :: "char \<Rightarrow> bool" where
  "is_lower c = (97 \<le> ord c \<and> ord c \<le> 122)"

definition is_space :: "char \<Rightarrow> bool" where
  "is_space c = ((9 \<le> ord c \<and> ord c \<le> 13) \<or> (28 \<le> ord c \<and> ord c \<le> 32)
     \<or> ord c = 133 \<or> ord c = 160)"

text \<open>\<open>s.strip()\<close>: white space removed at both ends.\<close>

definition strip :: "string \<Rightarrow> string" where
  "strip s = rev (dropWhile is_space (rev (dropWhile is_space s)))"

text \<open>\<open>re.sub(r'\D', '', s)\<close>: every character that is not a digit is replaced by
  the empty string, the digits stay in their order.\<close>

fun sub_non_digits :: "string \<Rightarrow> string" where
  "sub_non_digits [] = []"
| "sub_non_digits (c # cs) = (if is_digit c then c # sub_non_digits cs else sub_non_digits cs)"

text \<open>\<open>re.search\<close> of a one-character class: some character of the string is in
  the class.\<close>

fun re_search :: "(char \<Rightarrow> bool) \<Rightarrow> string \<Rightarrow> bool" where
  "re_search cls [] = False"
| "re_search cls (c # cs) = (if cls c then True else re_search cls cs)"

section \<open>Field validators (forms.py, class FormValidator)\<close>

text \<open>Every validator returns \<open>None\<close> for a valid value or one error message.\<close>

subsection \<open>validate_phone\<close>

definition validate_phone :: "string \<Rightarrow> string option" where
  "validate_phone phone =
     (if phone = [] then Some ''Phone number is required''
      else let digits_only = sub_non_digits phone in
        if length digits_only < 10 then Some ''Phone number must be at least 10 digits''
        else if length digits_only > 15 then Some ''Phone number is too long''
        else None)"

subsection \<open>More string operations\<close>

definition is_alpha :: "char \<Rightarrow> bool" where
  "is_alpha c = (is_upper c \<or> is_lower c)"

definition is_alnum :: "char \<Rightarrow> bool" where
  "is_alnum c = (is_alpha c \<or> is_digit c)"

text \<open>\<open>s.lower()\<close>: below 256 the letters with a lower-case form are \<open>A\<close> to \<open>Z\<close> and
  the code points 192 to 222 without the multiplication sign 215; the lower-case form is
  32 code points further.\<close>

definition lower_char :: "char \<Rightarrow> char" where
  "lower_char c =
     (if is_upper c \<or> (192 \<le> ord c \<and> ord c \<le> 222 \<and> ord c \<noteq> 215)
      then char_of (ord c + 32) else c)"

definition lower :: "string \<Rightarrow> string" where
  "lower s = map lower_char s"

definition upper_char :: "char \<Rightarrow> char" where
  "upper_char c = (if is_lower c then char_of (ord c - 32) else c)"

text \<open>\<open>s.replace('_', ' ')\<close>.\<close>

definition replace_underscores :: "string \<Rightarrow> string" where
  "replace_underscores s = map (\<lambda>c. if c = CHR ''_'' then CHR '' '' else c) s"

text \<open>\<open>s.title()\<close>: a character that follows a cased character is lower-cased, any
  other character is upper-cased. The source applies it to field names only, which are
  ASCII literals; \<open>title_from\<close> is \<open>str.title\<close> on ASCII strings (the flag says whether
  the previous character was cased).\<close>

fun title_from :: "bool \<Rightarrow> string \<Rightarrow> string" where
  "title_from prev [] = []"
| "title_from prev (c # cs) =
     (if prev then lower_char c else upper_char c) # title_from (is_alpha c) cs"

definition title :: "string \<Rightarrow> string" where
  "title s = title_from False s"

subsection \<open>validate_email\<close>

text \<open>
  \<open>re.match(r'^[a-zA-Z0-9._%+-]+@[a-zA-Z0-9.-]+\.[a-zA-Z]{2,}$', email)\<close>.
  The local part is the longest prefix in its class, since \<open>@\<close> is not in the class. The
  top-level domain is the longest run of letters at the end, since the character before it
  is a dot. What lies between is the domain and the dot. \<open>$\<close> matches at the end of the
  string and also before a line feed that ends the string.
\<close>

definition email_local :: "char \<Rightarrow> bool" where
  "email_local c = (is_alnum c \<or> c \<in> set ''._%+-'')"

definition email_domain :: "char \<Rightarrow> bool" where
  "email_domain c = (is_alnum c \<or> c \<in> set ''.-'')"

definition email_body :: "string \<Rightarrow> bool" where
  "email_body s =
     (takeWhile email_local s \<noteq> [] \<and>
      (case dropWhile email_local s of
         [] \<Rightarrow> False
       | a # after \<Rightarrow>
           a = CHR ''@'' \<and> 2 \<le> length (takeWhile is_alpha (rev after)) \<and>
           (case dropWhile is_alpha (rev after) of
              [] \<Rightarrow> False
            | d # dpart \<Rightarrow> d = CHR ''.'' \<and> dpart \<noteq> [] \<and> list_all email_domain dpart)))"

definition email_match :: "string \<Rightarrow> bool" where
  "email_match s =
     (email_body s \<or> (s \<noteq> [] \<and> last s = CHR 0x0A \<and> email_body (butlast s)))"

definition validate_email :: "string \<Rightarrow> string option" where
  "validate_email email =
     (if email = [] then Some ''Email is required''
      else if \<not> email_match email then Some ''Please enter a valid email address''
      else None)"

subsection \<open>validate_password\<close>

text \<open>The class of the last search,
  \<open>[!@#$%^&*()_+\-=\[\]{};':\"\\|,.<>\/?]\<close>: the apostrophe is code point 39, the
  double quote 34 and the backslash 92.\<close>

definition is_special :: "char \<Rightarrow> bool" where
  "is_special c =
     (c \<in> set ''!@#$%^&*()_+-=[]{};:|,.<>/?'' \<or> c = CHR 0x27 \<or> c = CHR 0x22 \<or> c = CHR 0x5C)"

definition validate_password :: "string \<Rightarrow> string option" where
  "validate_password password =
     (if password = [] then Some ''Password is required''
      else if length password < 8 then Some ''Password must be at least 8 characters long''
      else if \<not> re_search is_upper password
        then Some ''Password must contain at least one uppercase letter''
      else if \<not> re_search is_lower password
        then Some ''Password must contain at least one lowercase letter''
      else if \<not> re_search is_digit password
        then Some ''Password must contain at least one number''
      else if \<not> re_search is_special password
        then Some ''Password must contain at least one special character (!@#$%^&*)''
      else None)"

subsection \<open>validate_name, validate_gender, validate_address\<close>

text \<open>\<open>re.match(r"^[a-zA-Z\s\-']+$", name)\<close>: the class contains the line feed, so
  the match succeeds exactly on a non-empty string whose characters are all in the
  class.\<close>

definition name_char :: "char \<Rightarrow> bool" where
  "name_char c = (is_alpha c \<or> is_space c \<or> c = CHR ''-'' \<or> c = CHR 0x27)"

definition name_match :: "string \<Rightarrow> bool" where
  "name_match s = (s \<noteq> [] \<and> list_all name_char s)"

definition validate_name :: "string \<Rightarrow> string \<Rightarrow> string option" where
  "validate_name name field_name =
     (if name = [] then Some (field_name @ '' is required'')
      else if length (strip name) < 2
        then Some (field_name @ '' must be at least 2 characters long'')
      else if length (strip name) > 50
        then Some (field_name @ '' must be less than 50 characters'')
      else if \<not> name_match name
        then Some (field_name @ '' can only contain letters, spaces, hyphens, and apostrophes'')
      else None)"

definition valid_genders :: "string list" where
  "valid_genders = [''male'', ''female'', ''other'', ''prefer_not_to_say'']"

definition validate_gender :: "string \<Rightarrow> string option" where
  "validate_gender gender =
     (if gender = [] then Some ''Gender is required''
      else if lower gender \<notin> set valid_genders then Some ''Please select a valid gender option''
      else None)"

definition validate_address :: "string \<Rightarrow> string option" where
  "validate_address address =
     (if address = [] then Some ''Address is required''
      else if length (strip address) < 10 then Some ''Please enter a complete address''
      else if length (strip address) > 200 then Some ''Address is too long''
      else None)"

subsection \<open>validate_date_of_birth\<close>

text \<open>A \<open>datetime.date\<close>: year, month and day. Dates are compared as the triples
  \<open>(year, month, day)\<close>.\<close>

datatype date = Date (year: nat) (month: nat) (day: nat)

definition pair_less :: "nat \<times> nat \<Rightarrow> nat \<times> nat \<Rightarrow> bool" where
  "pair_less p q = (fst p < fst q \<or> (fst p = fst q \<and> snd p < snd q))"

definition date_less :: "date \<Rightarrow> date \<Rightarrow> bool" where
  "date_less a b =
     (year a < year b \<or> (year a = year b \<and> pair_less (month a, day a) (month b, day b)))"

definition is_leap :: "nat \<Rightarrow> bool" where
  "is_leap y = (y mod 4 = 0 \<and> (y mod 100 \<noteq> 0 \<or> y mod 400 = 0))"

definition days_in_month :: "nat \<Rightarrow> nat \<Rightarrow> nat" where
  "days_in_month y m =
     (if m = 2 then (if is_leap y then 29 else 28)
      else if m = 4 \<or> m = 6 \<or> m = 9 \<or> m = 11 then 30 else 31)"

text \<open>The constructor \<open>date(year, month, day)\<close> raises \<open>ValueError\<close> (here \<open>None\<close>)
  for a year outside 1 to 9999, a month outside 1 to 12 and a day the month does not
  have.\<close>

definition valid_date :: "date \<Rightarrow> bool" where
  "valid_date d =
     (1 \<le> year d \<and> year d \<le> 9999 \<and> 1 \<le> month d \<and> month d \<le> 12 \<and>
      1 \<le> day d \<and> day d \<le> days_in_month (year d) (month d))"

definition new_date :: "nat \<Rightarrow> nat \<Rightarrow> nat \<Rightarrow> date option" where
  "new_date y m d = (if valid_date (Date y m d) then Some (Date y m d) else None)"

text \<open>
  \<open>datetime.strptime(s, '%Y-%m-%d')\<close>. CPython turns the format into the regular
  expression
  \<^verbatim>\<open>(?P<Y>\d\d\d\d)-(?P<m>1[0-2]|0[1-9]|[1-9])-(?P<d>3[0-1]|[1-2]\d|0[1-9]|[1-9]| [1-9])\<close>,
  matches it at the start of the string, and raises \<open>ValueError\<close> when it does not match,
  when characters remain after the match, and when the three numbers are not a date.
  Each group is modelled by the list of its alternatives that match, in the order of the
  expression, each with the rest of the string; the matcher takes the first alternative
  after which the rest of the expression matches.
\<close>

definition digit_val :: "char \<Rightarrow> nat" where
  "digit_val c = ord c - 48"

definition in_range :: "char \<Rightarrow> char \<Rightarrow> char \<Rightarrow> bool" where
  "in_range lo hi c = (ord lo \<le> ord c \<and> ord c \<le> ord hi)"

fun match_Y :: "string \<Rightarrow> (nat \<times> string) option" where
  "match_Y (a # b # c # d # rest) =
     (if is_digit a \<and> is_digit b \<and> is_digit c \<and> is_digit d
      then Some (1000 * digit_val a + 100 * digit_val b + 10 * digit_val c + digit_val d, rest)
      else None)"
| "match_Y _ = None"

fun two_chars :: "(char \<Rightarrow> bool) \<Rightarrow> (char \<Rightarrow> bool) \<Rightarrow> string \<Rightarrow> (nat \<times> string) list" where
  "two_chars p q (a # b # rest) =
     (if p a \<and> q b then [(10 * digit_val a + digit_val b, rest)] else [])"
| "two_chars p q _ = []"

fun one_char :: "(char \<Rightarrow> bool) \<Rightarrow> string \<Rightarrow> (nat \<times> string) list" where
  "one_char p (a # rest) = (if p a then [(digit_val a, rest)] else [])"
| "one_char p [] = []"

fun space_char :: "(char \<Rightarrow> bool) \<Rightarrow> string \<Rightarrow> (nat \<times> string) list" where
  "space_char p (a # b # rest) = (if a = CHR '' '' \<and> p b then [(digit_val b, rest)] else [])"
| "space_char p _ = []"

definition alts_m :: "string \<Rightarrow> (nat \<times> string) list" where
  "alts_m s =
     two_chars (\<lambda>c. c = CHR ''1'') (in_range CHR ''0'' CHR ''2'') s
     @ two_chars (\<lambda>c. c = CHR ''0'') (in_range CHR ''1'' CHR ''9'') s
     @ one_char (in_range CHR ''1'' CHR ''9'') s"

definition alts_d :: "string \<Rightarrow> (nat \<times> string) list" where
  "alts_d s =
     two_chars (\<lambda>c. c = CHR ''3'') (in_range CHR ''0'' CHR ''1'') s
     @ two_chars (in_range CHR ''1'' CHR ''2'') is_digit s
     @ two_chars (\<lambda>c. c = CHR ''0'') (in_range CHR ''1'' CHR ''9'') s
     @ one_char (in_range CHR ''1'' CHR ''9'') s
     @ space_char (in_range CHR ''1'' CHR ''9'') s"

fun dash :: "string \<Rightarrow> string option" where
  "dash (c # rest) = (if c = CHR ''-'' then Some rest else None)"
| "dash [] = None"

fun first_some :: "('a \<Rightarrow> 'b option) \<Rightarrow> 'a list \<Rightarrow> 'b option" where
  "first_some f [] = None"
| "first_some f (x # xs) = (case f x of Some y \<Rightarrow> Some y | None \<Rightarrow> first_some f xs)"

definition match_ymd :: "string \<Rightarrow> ((nat \<times> nat \<times> nat) \<times> string) option" where
  "match_ymd s =
     (case match_Y s of
        None \<Rightarrow> None
      | Some (y, r1) \<Rightarrow>
          (case dash r1 of
             None \<Rightarrow> None
           | Some r2 \<Rightarrow>
               first_some
                 (\<lambda>(m, r3). case dash r3 of
                     None \<Rightarrow> None
                   | Some r4 \<Rightarrow> first_some (\<lambda>(d, r5). Some ((y, m, d), r5)) (alts_d r4))
                 (alts_m r2)))"

definition strptime :: "string \<Rightarrow> date option" where
  "strptime s =
     (case match_ymd s of
        None \<Rightarrow> None
      | Some ((y, m, d), rest) \<Rightarrow> if rest \<noteq> [] then None else new_date y m d)"

text \<open>The age in whole years, as the source computes it: the difference of the years,
  less one when today's \<open>(month, day)\<close> is before the birth's.\<close>

definition age_on :: "date \<Rightarrow> date \<Rightarrow> int" where
  "age_on today dob =
     int (year today) - int (year dob)
       - (if pair_less (month today, day today) (month dob, day dob) then 1 else 0)"

text \<open>\<open>date.today()\<close> is the parameter \<open>today\<close>; the source reads it twice within one
  call, and the model takes both readings to be the same day.\<close>

definition validate_date_of_birth :: "date \<Rightarrow> string \<Rightarrow> string option" where
  "validate_date_of_birth today dob_str =
     (if dob_str = [] then Some ''Date of birth is required''
      else case strptime dob_str of
        None \<Rightarrow> Some ''Please enter a valid date in YYYY-MM-DD format''
      | Some dob \<Rightarrow>
          if date_less today dob then Some ''Date of birth cannot be in the future''
          else if age_on today dob < 13 then Some ''Patient must be at least 13 years old''
          else if age_on today dob > 120 then Some ''Please enter a valid date of birth''
          else None)"

section \<open>Form validators (forms.py, classes RegistrationForm and LoginForm)\<close>

text \<open>A submission maps field names to the submitted strings. Both form classes have the
  same two attributes, the submission and the list of error messages of the last
  \<open>validate()\<close>.\<close>

type_synonym form_data = "string \<rightharpoonup> string"

record form =
  data :: form_data
  errors :: "string list"

definition new_form :: "form_data \<Rightarrow> form" where
  "new_form form_data = \<lparr>data = form_data, errors = []\<rparr>"

text \<open>\<open>field not in data or not data[field] or str(data[field]).strip() == ''\<close>\<close>

definition field_missing :: "form_data \<Rightarrow> string \<Rightarrow> bool" where
  "field_missing d field =
     (case d field of None \<Rightarrow> True | Some v \<Rightarrow> v = [] \<or> strip v = [])"

fun validate_required_fields :: "form_data \<Rightarrow> string list \<Rightarrow> string list" where
  "validate_required_fields d [] = []"
| "validate_required_fields d (field # rest) =
     (if field_missing d field then [title (replace_underscores field) @ '' is required'']
      else [])
     @ validate_required_fields d rest"

definition required_fields :: "string list" where
  "required_fields =
     [''first_name'', ''last_name'', ''email'', ''phone'', ''date_of_birth'',
      ''gender'', ''address'', ''emergency_contact_name'', ''emergency_contact_phone'',
      ''password'', ''confirm_password'']"

text \<open>\<open>if error: self.errors.append(error)\<close>: \<open>None\<close> and the empty string are false.\<close>

definition add_error :: "string option \<Rightarrow> string list \<Rightarrow> string list" where
  "add_error error errs =
     (case error of None \<Rightarrow> errs | Some e \<Rightarrow> if e = [] then errs else errs @ [e])"

text \<open>\<open>if 'f' in self.data: error = validator(self.data['f']); if error: ...\<close>\<close>

definition check_field ::
  "form_data \<Rightarrow> string \<Rightarrow> (string \<Rightarrow> string option) \<Rightarrow> string list \<Rightarrow> string list" where
  "check_field d field validator errs =
     (case d field of None \<Rightarrow> errs | Some v \<Rightarrow> add_error (validator v) errs)"

text \<open>The emergency contact's phone: the message is appended with a new prefix.\<close>

definition check_emergency_phone :: "form_data \<Rightarrow> string list \<Rightarrow> string list" where
  "check_emergency_phone d errs =
     (case d ''emergency_contact_phone'' of
        None \<Rightarrow> errs
      | Some v \<Rightarrow>
          (case validate_phone v of
             None \<Rightarrow> errs
           | Some e \<Rightarrow> if e = [] then errs else errs @ [''Emergency contact '' @ lower e]))"

definition check_confirmation :: "form_data \<Rightarrow> string list \<Rightarrow> string list" where
  "check_confirmation d errs =
     (case d ''password'' of
        None \<Rightarrow> errs
      | Some p \<Rightarrow>
          (case d ''confirm_password'' of
             None \<Rightarrow> errs
           | Some c \<Rightarrow> if p \<noteq> c then errs @ [''Passwords do not match''] else errs))"

text \<open>\<open>RegistrationForm.validate\<close>: the checks in the order of the source, each
  working on the list the previous one left. The result is the returned truth value and
  the form with its new error list.\<close>

definition registration_errors :: "date \<Rightarrow> form_data \<Rightarrow> string list" where
  "registration_errors today d =
     check_confirmation d
      (check_field d ''password'' validate_password
      (check_emergency_phone d
      (check_field d ''emergency_contact_name'' (\<lambda>v. validate_name v ''Emergency contact name'')
      (check_field d ''address'' validate_address
      (check_field d ''gender'' validate_gender
      (check_field d ''date_of_birth'' (validate_date_of_birth today)
      (check_field d ''phone'' validate_phone
      (check_field d ''email'' validate_email
      (check_field d ''last_name'' (\<lambda>v. validate_name v ''Last name'')
      (check_field d ''first_name'' (\<lambda>v. validate_name v ''First name'')
      ([] @ validate_required_fields d required_fields)))))))))))"

definition RegistrationForm_validate :: "date \<Rightarrow> form \<Rightarrow> bool \<times> form" where
  "RegistrationForm_validate today f =
     (let errs = registration_errors today (data f)
      in (length errs = 0, f\<lparr>errors := errs\<rparr>))"

definition get_errors :: "form \<Rightarrow> string list" where
  "get_errors f = errors f"

text \<open>\<open>LoginForm.validate\<close>; \<open>not self.data.get(k)\<close> holds for an absent key and for
  an empty value.\<close>

definition get_falsy :: "form_data \<Rightarrow> string \<Rightarrow> bool" where
  "get_falsy d k = (case d k of None \<Rightarrow> True | Some v \<Rightarrow> v = [])"

definition login_errors :: "form_data \<Rightarrow> string list" where
  "login_errors d =
     (let e1 = (if get_falsy d ''email'' then [] @ [''Email is required'']
                else check_field d ''email'' validate_email [])
      in if get_falsy d ''password'' then e1 @ [''Password is required''] else e1)"

definition LoginForm_validate :: "form \<Rightarrow> bool \<times> form" where
  "LoginForm_validate f =
     (let errs = login_errors (data f) in (length errs = 0, f\<lparr>errors := errs\<rparr>))"

section \<open>Session and authentication (routes.py)\<close>

text \<open>
  The Flask session of this application holds three keys: \<open>patient_id\<close> (the subject
  identifier), \<open>patient_name\<close> and \<open>last_activity\<close>; a key that is absent is
  \<open>None\<close>, and \<open>session.clear()\<close> leaves all three absent. A \<open>datetime\<close> is the number
  of microseconds since a fixed origin (its resolution is one microsecond); the session
  stores \<open>last_activity\<close> as the ISO text of a \<open>datetime\<close> and reads it back with
  \<open>fromisoformat\<close>, which returns the same \<open>datetime\<close>, so the model stores the number.
  Messages passed to \<open>flash\<close> are collected, with their category, in a list of their own.
\<close>

record session =
  patient_id :: "int option"
  patient_name :: "string option"
  last_activity :: "int option"

definition clear :: session where
  "clear = \<lparr>patient_id = None, patient_name = None, last_activity = None\<rparr>"

text \<open>The \<open>Patient\<close> model is declared outside the files at hand; a record has the
  attributes the routes read and write. \<open>check_password\<close> and \<open>full_name\<close> belong to
  that model and are parameters below.\<close>

record patient =
  pid :: int
  email :: string
  first_name :: string
  is_active :: bool
  last_login :: "int option"

record app_state =
  session :: session
  flashes :: "(string \<times> string) list"
  patients :: "patient list"

datatype response = Redirect string | Render string | BadRequest

definition flash :: "string \<Rightarrow> string \<Rightarrow> app_state \<Rightarrow> app_state" where
  "flash message category st = st\<lparr>flashes := flashes st @ [(message, category)]\<rparr>"

text \<open>
  \<open>check_session_timeout\<close> runs before every request and returns a response only when
  the session has expired. \<open>t_check\<close> is the reading of \<open>datetime.utcnow()\<close> that is
  compared with the stored time and \<open>t_store\<close> the reading that is stored.
  \<open>total_seconds() > 1800\<close> compares the quotient of the elapsed microseconds by
  \<open>10^6\<close>, rounded to a float, with 1800; the rounding is monotone and keeps 1800 and
  every multiple of a microsecond above it apart, so the test is that the elapsed
  microseconds exceed \<open>1800 * 10^6\<close>.
\<close>

definition timeout_us :: int where
  "timeout_us = 1800 * 1000000"

definition check_session_timeout :: "int \<Rightarrow> int \<Rightarrow> app_state \<Rightarrow> app_state \<times> response option" where
  "check_session_timeout t_check t_store st =
     (if patient_id (session st) \<noteq> None then
        (case last_activity (session st) of
           Some la \<Rightarrow>
             if t_check - la > timeout_us
             then (flash ''Your session has expired. Please log in again.'' ''warning''
                     (st\<lparr>session := clear\<rparr>),
                   Some (Redirect ''login''))
             else (st\<lparr>session := (session st)\<lparr>last_activity := Some t_store\<rparr>\<rparr>, None)
         | None \<Rightarrow> (st\<lparr>session := (session st)\<lparr>last_activity := Some t_store\<rparr>\<rparr>, None))
      else (st, None))"

text \<open>\<open>login_required\<close>: a view is a function from the state to the new state and a
  response.\<close>

type_synonym view = "app_state \<Rightarrow> app_state \<times> response"

definition login_required :: "view \<Rightarrow> view" where
  "login_required f st =
     (if patient_id (session st) = None
      then (flash ''Please log in to access this page.'' ''warning'' st, Redirect ''login'')
      else f st)"

text \<open>The \<open>login\<close> view. \<open>Patient.query.filter_by(email=email).first()\<close> is the first
  record with that email; \<open>request.form[k]\<close> on an absent key is a bad request.\<close>

datatype http_method = GET | POST

fun flash_all :: "string list \<Rightarrow> app_state \<Rightarrow> app_state" where
  "flash_all [] st = st"
| "flash_all (e # es) st = flash_all es (flash e ''danger'' st)"

definition set_last_login :: "patient \<Rightarrow> int \<Rightarrow> patient list \<Rightarrow> patient list" where
  "set_last_login p t ps = map (\<lambda>q. if pid q = pid p then q\<lparr>last_login := Some t\<rparr> else q) ps"

definition login ::
  "(patient \<Rightarrow> string \<Rightarrow> bool) \<Rightarrow> (patient \<Rightarrow> string) \<Rightarrow> int \<Rightarrow> int
     \<Rightarrow> http_method \<Rightarrow> form_data \<Rightarrow> view" where
  "login check_password full_name t_session t_login method request_form st =
     (if patient_id (session st) \<noteq> None then (st, Redirect ''dashboard'')
      else if method = POST then
        (let (ok, f) = LoginForm_validate (new_form request_form) in
         if ok then
           (case request_form ''email'' of
              None \<Rightarrow> (st, BadRequest)
            | Some e \<Rightarrow>
           (case request_form ''password'' of
              None \<Rightarrow> (st, BadRequest)
            | Some password \<Rightarrow>
           (case find (\<lambda>p. email p = lower (strip e)) (patients st) of
              None \<Rightarrow>
                (flash ''Invalid email or password. Please try again.'' ''danger'' st,
                 Render ''login.html'')
            | Some p \<Rightarrow>
                if check_password p password then
                  (if is_active p then
                     (flash (''Welcome back, '' @ first_name p @ ''!'') ''success''
                        (st\<lparr>session := \<lparr>patient_id = Some (pid p),
                                         patient_name = Some (full_name p),
                                         last_activity = Some t_session\<rparr>,
                            patients := set_last_login p t_login (patients st)\<rparr>),
                      Redirect ''dashboard'')
                   else
                     (flash ''Your account has been deactivated. Please contact support.''
                        ''danger'' st,
                      Render ''login.html''))
                else
                  (flash ''Invalid email or password. Please try again.'' ''danger'' st,
                   Render ''login.html''))))
         else (flash_all (get_errors f) st, Render ''login.html''))
      else (st, Render ''login.html''))"

section \<open>Notions of the specification\<close>








text \<open>A registration whose fields are all valid, and the same with other
  confirmations.\<close>

definition payload :: "string \<Rightarrow> form_data" where
  "payload confirmation =
     [''first_name'' \<mapsto> ''Ann'', ''last_name'' \<mapsto> ''Lee'', ''email'' \<mapsto> ''ann@example.org'',
      ''phone'' \<mapsto> ''555-123-4567'', ''date_of_birth'' \<mapsto> ''2000-01-05'',
      ''gender'' \<mapsto> ''female'', ''address'' \<mapsto> ''12 Long Street'',
      ''emergency_contact_name'' \<mapsto> ''Bob Lee'',
      ''emergency_contact_phone'' \<mapsto> ''555-123-4568'',
      ''password'' \<mapsto> ''ValidPass1!'', ''confirm_password'' \<mapsto> confirmation]"

section \<open>Properties\<close>

subsection \<open>The character classes and the patterns\<close>





lemma takeWhile_run:
  "list_all P l \<Longrightarrow> \<not> P x \<Longrightarrow> takeWhile P (l @ x # r) = l \<and> dropWhile P (l @ x # r) = x # r"
  by (induction l) auto

text \<open>The strings that the body of the email pattern matches: a non-empty local part,
  \<open>@\<close>, a non-empty domain, a dot, and two or more letters.\<close>

lemma email_body_iff:
  "email_body s \<longleftrightarrow>
     (\<exists>l dm t. s = l @ ''@'' @ dm @ ''.'' @ t \<and> l \<noteq> [] \<and> list_all email_local l
        \<and> dm \<noteq> [] \<and> list_all email_domain dm \<and> 2 \<le> length t \<and> list_all is_alpha t)"
proof
  assume b: "email_body s"
  define l where "l = takeWhile email_local s"
  from b obtain after where r: "dropWhile email_local s = CHR ''@'' # after"
    by (auto simp: email_body_def split: list.splits)
  define t where "t = rev (takeWhile is_alpha (rev after))"
  from b r obtain dr where d: "dropWhile is_alpha (rev after) = CHR ''.'' # dr"
    "dr \<noteq> []" "list_all email_domain dr"
    by (auto simp: email_body_def split: list.splits)
  have s: "s = l @ CHR ''@'' # after"
    using takeWhile_dropWhile_id [of email_local s] r by (simp add: l_def)
  have "rev after = rev t @ CHR ''.'' # dr"
    using takeWhile_dropWhile_id [of is_alpha "rev after"] d(1) by (simp add: t_def)
  then have "rev (rev after) = rev (rev t @ CHR ''.'' # dr)" by simp
  then have a: "after = rev dr @ CHR ''.'' # t" by simp
  have "l \<noteq> []" "2 \<le> length t" using b r by (simp_all add: email_body_def l_def t_def)
  moreover have "list_all email_local l" "list_all is_alpha t"
    by (auto simp: l_def t_def list_all_iff dest: set_takeWhileD)
  moreover have "rev dr \<noteq> []" "list_all email_domain (rev dr)"
    using d(2,3) by (simp_all add: list_all_iff)
  ultimately show "\<exists>l dm t. s = l @ ''@'' @ dm @ ''.'' @ t \<and> l \<noteq> [] \<and> list_all email_local l
        \<and> dm \<noteq> [] \<and> list_all email_domain dm \<and> 2 \<le> length t \<and> list_all is_alpha t"
    using s a by (intro exI [of _ l] exI [of _ "rev dr"] exI [of _ t]) simp
next
  assume "\<exists>l dm t. s = l @ ''@'' @ dm @ ''.'' @ t \<and> l \<noteq> [] \<and> list_all email_local l
        \<and> dm \<noteq> [] \<and> list_all email_domain dm \<and> 2 \<le> length t \<and> list_all is_alpha t"
  then obtain l dm t where s: "s = l @ CHR ''@'' # dm @ CHR ''.'' # t" and l: "l \<noteq> []"
    "list_all email_local l" and dm: "dm \<noteq> []" "list_all email_domain dm"
    and t: "2 \<le> length t" "list_all is_alpha t"
    by auto
  have na: "\<not> email_local CHR ''@''" "\<not> is_alpha CHR ''.''"
    by (simp_all add: email_local_def is_alnum_def is_alpha_def is_upper_def is_lower_def
        is_digit_def ord_def)
  have 1: "takeWhile email_local s = l" "dropWhile email_local s = CHR ''@'' # dm @ CHR ''.'' # t"
    using takeWhile_run [OF l(2) na(1)] by (simp_all add: s)
  have "list_all is_alpha (rev t)" using t(2) by (simp add: list_all_iff)
  then have 2: "takeWhile is_alpha (rev t @ CHR ''.'' # rev dm) = rev t"
    "dropWhile is_alpha (rev t @ CHR ''.'' # rev dm) = CHR ''.'' # rev dm"
    using takeWhile_run [of is_alpha "rev t" "CHR ''.''" "rev dm"] na(2) by simp_all
  show "email_body s"
    using l(1) dm t(1) by (simp add: email_body_def 1 2 list_all_iff)
qed

subsection \<open>The field validators\<close>




subsection \<open>Session and authentication\<close>

text \<open>
  Claim C1. On a request whose session holds a subject identifier and a last-activity
  time: when more than 1800 seconds have passed since the last activity, the session is
  cleared, the session-expired message is flashed and the request is redirected to the
  login page; otherwise the session keeps its subject identifier and its last-activity
  time becomes the current time.
\<close>

theorem check_session_timeout_spec:
  assumes "patient_id (session st) = Some i" and "last_activity (session st) = Some la"
  shows "(timeout_us < t_check - la \<longrightarrow>
            check_session_timeout t_check t_store st =
              (flash ''Your session has expired. Please log in again.'' ''warning''
                 (st\<lparr>session := clear\<rparr>), Some (Redirect ''login''))
            \<and> patient_id (session (fst (check_session_timeout t_check t_store st))) = None
            \<and> last_activity (session (fst (check_session_timeout t_check t_store st))) = None)
       \<and> (t_check - la \<le> timeout_us \<longrightarrow>
            check_session_timeout t_check t_store st =
              (st\<lparr>session := (session st)\<lparr>last_activity := Some t_store\<rparr>\<rparr>, None)
            \<and> patient_id (session (fst (check_session_timeout t_check t_store st))) = Some i
            \<and> last_activity (session (fst (check_session_timeout t_check t_store st)))
                = Some t_store)
       \<and> timeout_us = 1800 * 1000000"
  using assms by (simp add: check_session_timeout_def flash_def clear_def timeout_us_def)

text \<open>A session last active at time 0: the request 1801 seconds later clears it, the
  request 1799 seconds later refreshes it.\<close>

theorem check_session_timeout_spec_witness:
  "check_session_timeout (1801 * 1000000) (1801 * 1000000)
      \<lparr>session = \<lparr>patient_id = Some 7, patient_name = Some ''Ann Lee'', last_activity = Some 0\<rparr>,
       flashes = [], patients = []\<rparr>
    = (\<lparr>session = \<lparr>patient_id = None, patient_name = None, last_activity = None\<rparr>,
        flashes = [(''Your session has expired. Please log in again.'', ''warning'')],
        patients = []\<rparr>, Some (Redirect ''login''))
   \<and> check_session_timeout (1799 * 1000000) (1799 * 1000000)
      \<lparr>session = \<lparr>patient_id = Some 7, patient_name = Some ''Ann Lee'', last_activity = Some 0\<rparr>,
       flashes = [], patients = []\<rparr>
    = (\<lparr>session = \<lparr>patient_id = Some 7, patient_name = Some ''Ann Lee'',
                    last_activity = Some (1799 * 1000000)\<rparr>,
        flashes = [], patients = []\<rparr>, None)"
  using check_session_timeout_spec [of "\<lparr>session = \<lparr>patient_id = Some 7,
        patient_name = Some ''Ann Lee'', last_activity = Some 0\<rparr>,
       flashes = [], patients = []\<rparr>" 7 0 "1801 * 1000000" "1801 * 1000000"]
    check_session_timeout_spec [of "\<lparr>session = \<lparr>patient_id = Some 7,
        patient_name = Some ''Ann Lee'', last_activity = Some 0\<rparr>,
       flashes = [], patients = []\<rparr>" 7 0 "1799 * 1000000" "1799 * 1000000"]
  by (simp add: timeout_us_def flash_def clear_def)

text \<open>After a successful login at time \<open>t\<close>, a request 1801 seconds later finds the
  session expired and one 1799 seconds later finds it alive.\<close>

lemma login_then_request:
  assumes "patient_id (session st) = None"
    and "login_errors request_form = []"
    and "request_form ''email'' = Some e"
    and "request_form ''password'' = Some password"
    and "find (\<lambda>p. email p = lower (strip e)) (patients st) = Some p"
    and "check_password p password" and "is_active p"
  shows "snd (check_session_timeout (t + 1801 * 1000000) t'
            (fst (login check_password full_name t t_login POST request_form st)))
          = Some (Redirect ''login'')"
    and "session (fst (check_session_timeout (t + 1801 * 1000000) t'
            (fst (login check_password full_name t t_login POST request_form st)))) = clear"
    and "check_session_timeout (t + 1799 * 1000000) t'
            (fst (login check_password full_name t t_login POST request_form st))
          = ((fst (login check_password full_name t t_login POST request_form st))
               \<lparr>session := \<lparr>patient_id = Some (pid p), patient_name = Some (full_name p),
                             last_activity = Some t'\<rparr>\<rparr>, None)"
proof -
  have v: "LoginForm_validate (new_form request_form)
      = (True, \<lparr>data = request_form, errors = []\<rparr>)"
    using assms(2) by (simp add: LoginForm_validate_def new_form_def)
  have l: "login check_password full_name t t_login POST request_form st =
      (flash (''Welcome back, '' @ first_name p @ ''!'') ''success''
         (st\<lparr>session := \<lparr>patient_id = Some (pid p), patient_name = Some (full_name p),
                          last_activity = Some t\<rparr>,
             patients := set_last_login p t_login (patients st)\<rparr>),
       Redirect ''dashboard'')"
    using assms(1,3-7) by (simp add: login_def v)
  show "snd (check_session_timeout (t + 1801 * 1000000) t'
            (fst (login check_password full_name t t_login POST request_form st)))
          = Some (Redirect ''login'')"
    and "session (fst (check_session_timeout (t + 1801 * 1000000) t'
            (fst (login check_password full_name t t_login POST request_form st)))) = clear"
    and "check_session_timeout (t + 1799 * 1000000) t'
            (fst (login check_password full_name t t_login POST request_form st))
          = ((fst (login check_password full_name t t_login POST request_form st))
               \<lparr>session := \<lparr>patient_id = Some (pid p), patient_name = Some (full_name p),
                             last_activity = Some t'\<rparr>\<rparr>, None)"
    by (simp_all add: l check_session_timeout_def flash_def timeout_us_def)
qed

text \<open>
  Claim C9. The gate \<open>login_required\<close> around a view: on a session without a subject
  identifier the result is the redirect to the login page (with the please-log-in
  message flashed) whatever the view is, so the view is not run; on a session with a
  subject identifier the result is the view's.
\<close>

theorem login_required_spec:
  "(patient_id (session st) = None \<longrightarrow>
      login_required f st =
        (flash ''Please log in to access this page.'' ''warning'' st, Redirect ''login'')
      \<and> (\<forall>g. login_required g st = login_required f st))
   \<and> (patient_id (session st) \<noteq> None \<longrightarrow> login_required f st = f st)"
  by (simp add: login_required_def)

theorem login_required_spec_witness:
  "login_required (\<lambda>st. (st\<lparr>flashes := []\<rparr>, Render ''dashboard.html''))
      \<lparr>session = clear, flashes = [], patients = []\<rparr>
     = (\<lparr>session = clear, flashes = [(''Please log in to access this page.'', ''warning'')],
         patients = []\<rparr>, Redirect ''login'')
   \<and> login_required (\<lambda>st. (st, Render ''dashboard.html''))
      \<lparr>session = clear\<lparr>patient_id := Some 7\<rparr>, flashes = [], patients = []\<rparr>
     = (\<lparr>session = clear\<lparr>patient_id := Some 7\<rparr>, flashes = [], patients = []\<rparr>,
        Render ''dashboard.html'')"
  using login_required_spec [of "\<lparr>session = clear, flashes = [], patients = []\<rparr>"
      "\<lambda>st. (st\<lparr>flashes := []\<rparr>, Render ''dashboard.html'')"]
    login_required_spec [of "\<lparr>session = clear\<lparr>patient_id := Some 7\<rparr>, flashes = [],
      patients = []\<rparr>" "\<lambda>st. (st, Render ''dashboard.html'')"]
  by (simp add: clear_def flash_def)

lemma flash_message_inject:
  "flash m c st = flash m' c' st \<Longrightarrow> m = m'"
proof -
  assume "flash m c st = flash m' c' st"
  then have "flashes (flash m c st) = flashes (flash m' c' st)" by simp
  then show "m = m'" by (simp add: flash_def)
qed

text \<open>
  Claim C6. A login attempt whose form validates, made without a session: when no record
  has the email and when the record's password check fails, the outcome is the same, the
  message \<open>Invalid email or password. Please try again.\<close> and the login page, with
  nothing else changed; when the password matches a record that is not active, the
  message is the deactivated-account one, which differs from the generic one.
\<close>

theorem login_failure_generic:
  assumes "patient_id (session st) = None"
    and "login_errors request_form = []"
    and "request_form ''email'' = Some e"
    and "request_form ''password'' = Some password"
  shows "(find (\<lambda>p. email p = lower (strip e)) (patients st) = None
           \<or> (\<exists>p. find (\<lambda>p. email p = lower (strip e)) (patients st) = Some p
                  \<and> \<not> check_password p password) \<longrightarrow>
            login check_password full_name t_session t_login POST request_form st =
              (flash ''Invalid email or password. Please try again.'' ''danger'' st,
               Render ''login.html''))
       \<and> ((\<exists>p. find (\<lambda>p. email p = lower (strip e)) (patients st) = Some p
              \<and> check_password p password \<and> \<not> is_active p) \<longrightarrow>
            login check_password full_name t_session t_login POST request_form st =
              (flash ''Your account has been deactivated. Please contact support.'' ''danger'' st,
               Render ''login.html'')
            \<and> login check_password full_name t_session t_login POST request_form st \<noteq>
              (flash ''Invalid email or password. Please try again.'' ''danger'' st,
               Render ''login.html''))"
proof -
  have ne: "flash ''Your account has been deactivated. Please contact support.'' ''danger'' st
      \<noteq> flash ''Invalid email or password. Please try again.'' ''danger'' st"
    using flash_message_inject by fastforce
  have v: "LoginForm_validate (new_form request_form)
      = (True, \<lparr>data = request_form, errors = []\<rparr>)"
    using assms(2) by (simp add: LoginForm_validate_def new_form_def)
  show ?thesis
    using assms(1,3,4) ne by (auto simp: login_def v)
qed


theorem login_failure_generic_witness:
  "login (\<lambda>p pw. pw = ''Right1!pw'') first_name 5 6 POST
      [''email'' \<mapsto> ''a@b.co'', ''password'' \<mapsto> ''wrong'']
      \<lparr>session = clear, flashes = [], patients = []\<rparr>
    = (\<lparr>session = clear,
        flashes = [(''Invalid email or password. Please try again.'', ''danger'')],
        patients = []\<rparr>, Render ''login.html'')
   \<and> login (\<lambda>p pw. pw = ''Right1!pw'') first_name 5 6 POST
      [''email'' \<mapsto> ''a@b.co'', ''password'' \<mapsto> ''wrong'']
      \<lparr>session = clear, flashes = [],
       patients = [\<lparr>pid = 1, email = ''a@b.co'', first_name = ''Ann'', is_active = True,
                    last_login = None\<rparr>]\<rparr>
    = (\<lparr>session = clear,
        flashes = [(''Invalid email or password. Please try again.'', ''danger'')],
        patients = [\<lparr>pid = 1, email = ''a@b.co'', first_name = ''Ann'', is_active = True,
                    last_login = None\<rparr>]\<rparr>, Render ''login.html'')
   \<and> login (\<lambda>p pw. pw = ''Right1!pw'') first_name 5 6 POST
      [''email'' \<mapsto> ''a@b.co'', ''password'' \<mapsto> ''Right1!pw'']
      \<lparr>session = clear, flashes = [],
       patients = [\<lparr>pid = 1, email = ''a@b.co'', first_name = ''Ann'', is_active = False,
                    last_login = None\<rparr>]\<rparr>
    = (\<lparr>session = clear,
        flashes = [(''Your account has been deactivated. Please contact support.'', ''danger'')],
        patients = [\<lparr>pid = 1, email = ''a@b.co'', first_name = ''Ann'', is_active = False,
                    last_login = None\<rparr>]\<rparr>, Render ''login.html'')"
proof -
  let ?cp = "\<lambda>(p::patient) pw. pw = ''Right1!pw''"
  let ?f1 = "[''email'' \<mapsto> ''a@b.co'', ''password'' \<mapsto> ''wrong'']"
  let ?f2 = "[''email'' \<mapsto> ''a@b.co'', ''password'' \<mapsto> ''Right1!pw'']"
  let ?p1 = "\<lparr>pid = 1, email = ''a@b.co'', first_name = ''Ann'', is_active = True, last_login = None\<rparr>"
  let ?p2 = "\<lparr>pid = 1, email = ''a@b.co'', first_name = ''Ann'', is_active = False, last_login = None\<rparr>"
  have v1: "login_errors ?f1 = []" by code_simp
  have v2: "login_errors ?f2 = []" by code_simp
  have k: "lower (strip ''a@b.co'') = ''a@b.co''" by code_simp
  have a: "patient_id (session \<lparr>session = clear, flashes = [], patients = ps\<rparr>) = None" for ps
    by (simp add: clear_def)
  note t1 = login_failure_generic [OF a v1, of "''a@b.co''" "''wrong''" "[]" ?cp first_name 5 6]
  note t2 = login_failure_generic [OF a v1, of "''a@b.co''" "''wrong''" "[?p1]" ?cp first_name 5 6]
  note t3 = login_failure_generic [OF a v2, of "''a@b.co''" "''Right1!pw''" "[?p2]" ?cp first_name 5 6]
  show ?thesis using t1 t2 t3 by (simp add: k flash_def)
qed

subsection \<open>Date of birth\<close>



lemma strptime_valid: "strptime s = Some d \<Longrightarrow> valid_date d"
  by (auto simp: strptime_def new_date_def split: option.splits prod.splits if_splits)













subsection \<open>The registration form\<close>

lemma add_error_append: "add_error e errs = errs @ add_error e []"
  by (simp add: add_error_def split: option.splits)

lemma check_field_append: "check_field d f v errs = errs @ check_field d f v []"
  using add_error_append [of _ errs] by (simp add: check_field_def split: option.splits)

lemma check_emergency_phone_append:
  "check_emergency_phone d errs = errs @ check_emergency_phone d []"
  by (simp add: check_emergency_phone_def split: option.splits)

lemma check_confirmation_append:
  "check_confirmation d errs = errs @ check_confirmation d []"
  by (simp add: check_confirmation_def split: option.splits)

text \<open>The error list of a registration is the concatenation of what each check
  contributes, in the order of the source.\<close>

lemma registration_errors_concat:
  "registration_errors today d =
     validate_required_fields d required_fields
     @ check_field d ''first_name'' (\<lambda>v. validate_name v ''First name'') []
     @ check_field d ''last_name'' (\<lambda>v. validate_name v ''Last name'') []
     @ check_field d ''email'' validate_email []
     @ check_field d ''phone'' validate_phone []
     @ check_field d ''date_of_birth'' (validate_date_of_birth today) []
     @ check_field d ''gender'' validate_gender []
     @ check_field d ''address'' validate_address []
     @ check_field d ''emergency_contact_name'' (\<lambda>v. validate_name v ''Emergency contact name'') []
     @ check_emergency_phone d []
     @ check_field d ''password'' validate_password []
     @ check_confirmation d []"
  unfolding registration_errors_def
  apply (subst check_confirmation_append)
  apply (subst check_field_append)
  apply (subst check_emergency_phone_append)
  apply (subst check_field_append [of d "''emergency_contact_name''"])
  apply (subst check_field_append [of d "''address''"])
  apply (subst check_field_append [of d "''gender''"])
  apply (subst check_field_append [of d "''date_of_birth''"])
  apply (subst check_field_append [of d "''phone''"])
  apply (subst check_field_append [of d "''email''"])
  apply (subst check_field_append [of d "''last_name''"])
  apply (subst check_field_append [of d "''first_name''"])
  apply (simp only: append_Nil append_assoc)
  done

lemma required_message_listed:
  "field \<in> set fs \<Longrightarrow> field_missing d field \<Longrightarrow>
     title (replace_underscores field) @ '' is required'' \<in> set (validate_required_fields d fs)"
  by (induction fs) auto

lemma dropWhile_all_iff:
  "(\<forall>c\<in>set (dropWhile P s). P c) \<longleftrightarrow> (\<forall>c\<in>set s. P c)"
  by (induction s) auto

lemma strip_Nil_iff: "strip s = [] \<longleftrightarrow> list_all is_space s"
  by (simp add: strip_def dropWhile_all_iff list_all_iff)

lemma field_missing_iff:
  "field_missing d field \<longleftrightarrow> (case d field of None \<Rightarrow> True | Some v \<Rightarrow> list_all is_space v)"
  by (auto simp: field_missing_def strip_Nil_iff split: option.splits)

lemma required_labels: "map (\<lambda>f. title (replace_underscores f)) required_fields =
  [''First Name'', ''Last Name'', ''Email'', ''Phone'', ''Date Of Birth'', ''Gender'',
   ''Address'', ''Emergency Contact Name'', ''Emergency Contact Phone'', ''Password'',
   ''Confirm Password'']"
  by code_simp

lemma validate_get_errors:
  "get_errors (snd (RegistrationForm_validate today (new_form d))) = registration_errors today d"
  "fst (RegistrationForm_validate today (new_form d)) = (registration_errors today d = [])"
  by (simp_all add: RegistrationForm_validate_def get_errors_def new_form_def Let_def)

text \<open>
  Claim C5. For each of the eleven required fields of a registration that is absent,
  empty or made of white space only, the error list contains the message made of the
  field's label and \<open>is required\<close>, where the label is the field name with its
  underscores replaced by spaces and title-cased; the eleven messages are listed.
\<close>

theorem required_field_messages:
  assumes "field \<in> set required_fields"
    and "d field = None \<or> (\<exists>v. d field = Some v \<and> list_all is_space v)"
  shows "title (replace_underscores field) @ '' is required''
           \<in> set (get_errors (snd (RegistrationForm_validate today (new_form d))))
       \<and> \<not> fst (RegistrationForm_validate today (new_form d))
       \<and> map (\<lambda>f. title (replace_underscores f) @ '' is required'') required_fields =
          [''First Name is required'', ''Last Name is required'', ''Email is required'',
           ''Phone is required'', ''Date Of Birth is required'', ''Gender is required'',
           ''Address is required'', ''Emergency Contact Name is required'',
           ''Emergency Contact Phone is required'', ''Password is required'',
           ''Confirm Password is required'']"
proof -
  have "field_missing d field"
    using assms(2) by (auto simp: field_missing_iff)
  then have m: "title (replace_underscores field) @ '' is required''
      \<in> set (validate_required_fields d required_fields)"
    using assms(1) by (rule required_message_listed [rotated])
  then have in_errs: "title (replace_underscores field) @ '' is required''
      \<in> set (registration_errors today d)"
    by (subst registration_errors_concat) simp
  then have "registration_errors today d \<noteq> []" by auto
  moreover have "map (\<lambda>f. title (replace_underscores f) @ '' is required'') required_fields =
          [''First Name is required'', ''Last Name is required'', ''Email is required'',
           ''Phone is required'', ''Date Of Birth is required'', ''Gender is required'',
           ''Address is required'', ''Emergency Contact Name is required'',
           ''Emergency Contact Phone is required'', ''Password is required'',
           ''Confirm Password is required'']"
    by code_simp
  ultimately show ?thesis using in_errs by (simp add: validate_get_errors)
qed

theorem required_field_messages_witness:
  "''Gender is required''
      \<in> set (get_errors (snd (RegistrationForm_validate (Date 2024 6 15)
            (new_form ((payload ''ValidPass1!'')(''gender'' := Some ''  ''))))))
   \<and> ''Confirm Password is required''
      \<in> set (get_errors (snd (RegistrationForm_validate (Date 2024 6 15)
            (new_form ((payload ''ValidPass1!'')(''confirm_password'' := None))))))
   \<and> ''Date Of Birth is required''
      \<in> set (get_errors (snd (RegistrationForm_validate (Date 2024 6 15)
            (new_form ((payload ''ValidPass1!'')(''date_of_birth'' := Some []))))))"
proof -
  have f: "''gender'' \<in> set required_fields" "''confirm_password'' \<in> set required_fields"
    "''date_of_birth'' \<in> set required_fields"
    by (simp_all add: required_fields_def)
  have t: "title (replace_underscores ''gender'') = ''Gender''"
    "title (replace_underscores ''confirm_password'') = ''Confirm Password''"
    "title (replace_underscores ''date_of_birth'') = ''Date Of Birth''"
    by code_simp+
  have sp: "is_space CHR '' ''" by (simp add: is_space_def ord_def)
  have h1: "((payload ''ValidPass1!'')(''gender'' := Some ''  '')) ''gender'' = None
      \<or> (\<exists>v. ((payload ''ValidPass1!'')(''gender'' := Some ''  '')) ''gender'' = Some v
            \<and> list_all is_space v)"
    by (simp add: sp)
  have h2: "((payload ''ValidPass1!'')(''confirm_password'' := None)) ''confirm_password'' = None
      \<or> (\<exists>v. ((payload ''ValidPass1!'')(''confirm_password'' := None)) ''confirm_password'' = Some v
            \<and> list_all is_space v)"
    by simp
  have h3: "((payload ''ValidPass1!'')(''date_of_birth'' := Some [])) ''date_of_birth'' = None
      \<or> (\<exists>v. ((payload ''ValidPass1!'')(''date_of_birth'' := Some [])) ''date_of_birth'' = Some v
            \<and> list_all is_space v)"
    by simp
  show ?thesis
    using required_field_messages [where field = "''gender''" and today = "Date 2024 6 15"
          and d = "(payload ''ValidPass1!'')(''gender'' := Some ''  '')", OF f(1) h1]
      required_field_messages [where field = "''confirm_password''" and today = "Date 2024 6 15"
          and d = "(payload ''ValidPass1!'')(''confirm_password'' := None)", OF f(2) h2]
      required_field_messages [where field = "''date_of_birth''" and today = "Date 2024 6 15"
          and d = "(payload ''ValidPass1!'')(''date_of_birth'' := Some [])", OF f(3) h3]
    by (simp add: t)
qed

lemma validate_phone_message:
  "validate_phone v = Some e \<Longrightarrow>
     e = ''Phone number is required'' \<or> e = ''Phone number must be at least 10 digits''
       \<or> e = ''Phone number is too long''"
  by (auto simp: validate_phone_def Let_def split: if_splits)

lemma validate_phone_not_empty: "validate_phone v = Some e \<Longrightarrow> e \<noteq> []"
  using validate_phone_message [of v e] by auto

text \<open>
  Claim C7. When \<open>emergency_contact_phone\<close> is present and the phone validator rejects
  it, the check appends \<open>Emergency contact\<close>, a space and the lower-cased message of
  the phone validator, and that text is in the error list of the registration; an empty
  value contributes \<open>Emergency contact phone number is required\<close>.
\<close>

theorem emergency_phone_prefixed:
  assumes "d ''emergency_contact_phone'' = Some v" and "validate_phone v = Some e"
  shows "check_emergency_phone d errs = errs @ [''Emergency contact '' @ lower e]
       \<and> ''Emergency contact '' @ lower e
            \<in> set (get_errors (snd (RegistrationForm_validate today (new_form d))))
       \<and> ''Emergency contact '' @ lower e
            \<in> {''Emergency contact phone number is required'',
               ''Emergency contact phone number must be at least 10 digits'',
               ''Emergency contact phone number is too long''}
       \<and> (v = [] \<longrightarrow> ''Emergency contact '' @ lower e
                        = ''Emergency contact phone number is required'')"
proof -
  have ne: "e \<noteq> []" using assms(2) by (rule validate_phone_not_empty)
  have c: "check_emergency_phone d errs = errs @ [''Emergency contact '' @ lower e]" for errs
    using assms ne by (simp add: check_emergency_phone_def)
  have l: "lower ''Phone number is required'' = ''phone number is required''"
    "lower ''Phone number must be at least 10 digits'' = ''phone number must be at least 10 digits''"
    "lower ''Phone number is too long'' = ''phone number is too long''"
    by code_simp+
  have m: "''Emergency contact '' @ lower e
            \<in> {''Emergency contact phone number is required'',
               ''Emergency contact phone number must be at least 10 digits'',
               ''Emergency contact phone number is too long''}"
    using validate_phone_message [OF assms(2)] l by auto
  have e: "v = [] \<Longrightarrow> ''Emergency contact '' @ lower e = ''Emergency contact phone number is required''"
    using assms(2) l by (auto simp: validate_phone_def)
  have "''Emergency contact '' @ lower e \<in> set (registration_errors today d)"
    by (subst registration_errors_concat) (simp add: c)
  then show ?thesis using c m e by (simp add: validate_get_errors)
qed


theorem emergency_phone_prefixed_witness:
  "''Emergency contact phone number is required''
      \<in> set (get_errors (snd (RegistrationForm_validate (Date 2024 6 15)
            (new_form ((payload ''ValidPass1!'')(''emergency_contact_phone'' := Some []))))))
   \<and> ''Emergency contact phone number must be at least 10 digits''
      \<in> set (get_errors (snd (RegistrationForm_validate (Date 2024 6 15)
            (new_form ((payload ''ValidPass1!'')(''emergency_contact_phone'' := Some ''123''))))))"
proof -
  have l: "lower ''Phone number is required'' = ''phone number is required''"
    "lower ''Phone number must be at least 10 digits'' = ''phone number must be at least 10 digits''"
    by code_simp+
  have h1: "((payload ''ValidPass1!'')(''emergency_contact_phone'' := Some []))
      ''emergency_contact_phone'' = Some []"
    by simp
  have h2: "((payload ''ValidPass1!'')(''emergency_contact_phone'' := Some ''123''))
      ''emergency_contact_phone'' = Some ''123''"
    by simp
  have p1: "validate_phone [] = Some ''Phone number is required''"
    by (simp add: validate_phone_def)
  have p2: "validate_phone ''123'' = Some ''Phone number must be at least 10 digits''"
    by (simp add: validate_phone_def)
  show ?thesis
    using emergency_phone_prefixed [where today = "Date 2024 6 15" and errs = "[]"
          and d = "(payload ''ValidPass1!'')(''emergency_contact_phone'' := Some [])", OF h1 p1]
      emergency_phone_prefixed [where today = "Date 2024 6 15" and errs = "[]"
          and d = "(payload ''ValidPass1!'')(''emergency_contact_phone'' := Some ''123'')",
          OF h2 p2]
    by (simp add: l)
qed

text \<open>
  Claim C10. A registration whose \<open>email\<close> field is present and empty has the message
  \<open>Email is required\<close> at least twice in its error list: the required-field pass lists
  it, and the email validator, which runs on every present field, adds it again.
\<close>

theorem empty_email_reported_twice:
  assumes "d ''email'' = Some []"
  shows "2 \<le> count_list (get_errors (snd (RegistrationForm_validate today (new_form d))))
                ''Email is required''
       \<and> ''Email is required'' \<in> set (validate_required_fields d required_fields)
       \<and> check_field d ''email'' validate_email errs = errs @ [''Email is required'']"
proof -
  have t: "title (replace_underscores ''email'') = ''Email''" by code_simp
  have "field_missing d ''email''" using assms by (simp add: field_missing_def)
  moreover have "''email'' \<in> set required_fields" by (simp add: required_fields_def)
  ultimately have "title (replace_underscores ''email'') @ '' is required''
      \<in> set (validate_required_fields d required_fields)"
    by (rule required_message_listed [rotated])
  then have r: "''Email is required'' \<in> set (validate_required_fields d required_fields)"
    by (simp add: t)
  then have r1: "1 \<le> count_list (validate_required_fields d required_fields) ''Email is required''"
    using count_list_0_iff [of "validate_required_fields d required_fields" "''Email is required''"]
    by linarith
  have c: "check_field d ''email'' validate_email errs = errs @ [''Email is required'']" for errs
    using assms by (simp add: check_field_def validate_email_def add_error_def)
  have "2 \<le> count_list (registration_errors today d) ''Email is required''"
    using r1 by (subst registration_errors_concat) (simp add: c [of "[]", simplified])
  then show ?thesis using r c by (simp add: validate_get_errors)
qed

theorem empty_email_reported_twice_witness:
  "get_errors (snd (RegistrationForm_validate (Date 2024 6 15)
       (new_form ((payload ''ValidPass1!'')(''email'' := Some [])))))
     = [''Email is required'', ''Email is required'']
   \<and> 2 \<le> count_list (get_errors (snd (RegistrationForm_validate (Date 2024 6 15)
       (new_form ((payload ''ValidPass1!'')(''email'' := Some [])))))) ''Email is required''"
proof -
  have h: "((payload ''ValidPass1!'')(''email'' := Some [])) ''email'' = Some []" by simp
  have e: "get_errors (snd (RegistrationForm_validate (Date 2024 6 15)
       (new_form ((payload ''ValidPass1!'')(''email'' := Some [])))))
     = [''Email is required'', ''Email is required'']"
    by code_simp
  show ?thesis
    using empty_email_reported_twice [where today = "Date 2024 6 15" and errs = "[]"
          and d = "(payload ''ValidPass1!'')(''email'' := Some [])", OF h] e
    by simp
qed


lemma not_missing_by_strip:
  assumes "d field = Some v" and "strip v \<noteq> []"
  shows "\<not> field_missing d field"
  using assms by (auto simp: field_missing_def strip_def)





















end
